theory Spec2Isabelle
  imports Main
begin

section \<open>JavaScript values and errors\<close>

text \<open>
  The fragment of JavaScript values the modelled code inspects. A function object is
  identified by a number (two registrations of the same function carry the same number);
  a symbol likewise. Only integral numbers are represented.
\<close>

type_synonym fn_id = nat

datatype jsval =
    Undefined
  | Null
  | Boolean bool
  | Num int
  | Str string
  | Symbol nat
  | Function fn_id
  | Array "jsval list"
  | PlainObject "(string \<times> jsval) list"
  | Instance string

text \<open>An \<open>Error\<close> object: its \<open>name\<close> and \<open>message\<close> properties.\<close>

record error =
  name :: string
  message :: string

definition Error :: "string \<Rightarrow> error" where
  "Error msg = \<lparr>name = ''Error'', message = msg\<rparr>"

definition TypeError :: "string \<Rightarrow> error" where
  "TypeError msg = \<lparr>name = ''TypeError'', message = msg\<rparr>"

text \<open>\<open>util.ts\<close>: \<open>class TrilogyError extends Error\<close> sets \<open>this.name = 'TrilogyError'\<close>.\<close>

definition TrilogyError :: "string \<Rightarrow> error" where
  "TrilogyError msg = \<lparr>name = ''TrilogyError'', message = msg\<rparr>"

fun typeof :: "jsval \<Rightarrow> string" where
  "typeof Undefined = ''undefined''"
| "typeof Null = ''object''"
| "typeof (Boolean b) = ''boolean''"
| "typeof (Num n) = ''number''"
| "typeof (Str s) = ''string''"
| "typeof (Symbol k) = ''symbol''"
| "typeof (Function f) = ''function''"
| "typeof (Array xs) = ''object''"
| "typeof (PlainObject kvs) = ''object''"
| "typeof (Instance c) = ''object''"


text \<open>
  \<open>util.ts\<close>, \<open>invariant(condition, message?)\<close>: throws a \<open>TrilogyError\<close> with
  \<open>message || 'Invariant Violation'\<close> when the condition is falsy, and returns the
  condition otherwise.
\<close>

definition invariant :: "bool \<Rightarrow> string option \<Rightarrow> error + bool" where
  "invariant condition msg =
     (if \<not> condition
      then Inl (TrilogyError (case msg of
                                None \<Rightarrow> ''Invariant Violation''
                              | Some m \<Rightarrow> if m = [] then ''Invariant Violation'' else m))
      else Inr condition)"

section \<open>The hook registry (\<open>hooks.ts\<close>)\<close>

subsection \<open>Insertion-ordered sets\<close>

text \<open>
  A JavaScript \<open>Set\<close> is the list of its entries in insertion order. \<open>add\<close> of a value
  that is present changes nothing (the value keeps its place), otherwise the value is
  appended; \<open>delete\<close> replaces the entry by an empty one (\<open>None\<close>) and answers whether
  the value was present. The list never shrinks, so that an iteration in progress,
  which holds a position in it, goes on correctly over a set that changes meanwhile:
  it skips the empty entries and reaches the values appended since it started.
  \<open>Set_values\<close> is what an iteration from the start over an unchanging set yields.
\<close>

definition Set_add :: "'a \<Rightarrow> 'a option list \<Rightarrow> 'a option list" where
  "Set_add x es = (if Some x \<in> set es then es else es @ [Some x])"

definition Set_delete :: "'a \<Rightarrow> 'a option list \<Rightarrow> bool \<times> 'a option list" where
  "Set_delete x es = (Some x \<in> set es, map (\<lambda>e. if e = Some x then None else e) es)"

fun Set_values :: "'a option list \<Rightarrow> 'a list" where
  "Set_values [] = []"
| "Set_values (None # es) = Set_values es"
| "Set_values (Some x # es) = x # Set_values es"

subsection \<open>Registration\<close>


text \<open>\<open>EventCancellation = Symbol('trilogy.EventCancellation')\<close>: one fixed symbol.\<close>

definition EventCancellation :: jsval where
  "EventCancellation = Symbol 0"

record OnQueryOptions =
  includeInternal :: "bool option"

text \<open>The private fields \<open>_onQuery\<close>, \<open>_onQueryAll\<close>, \<open>_beforeCreate\<close>, ... of the class.\<close>

record Hooks =
  set_onQuery :: "jsval option list"
  set_onQueryAll :: "jsval option list"
  set_beforeCreate :: "jsval option list"
  set_afterCreate :: "jsval option list"
  set_beforeUpdate :: "jsval option list"
  set_afterUpdate :: "jsval option list"
  set_beforeRemove :: "jsval option list"
  set_afterRemove :: "jsval option list"

definition new_Hooks :: Hooks where
  "new_Hooks = \<lparr>set_onQuery = [], set_onQueryAll = [], set_beforeCreate = [],
     set_afterCreate = [], set_beforeUpdate = [], set_afterUpdate = [],
     set_beforeRemove = [], set_afterRemove = []\<rparr>"

text \<open>
  A removal capability is the closure a registration returns: it acts on the registry
  as it is when invoked and answers the boolean of \<open>Set.delete\<close>.
\<close>

type_synonym removal = "Hooks \<Rightarrow> bool \<times> Hooks"

definition hook_msg :: string where
  "hook_msg = ''hook callbacks must be of type function''"

definition onQuery :: "jsval \<Rightarrow> OnQueryOptions \<Rightarrow> Hooks \<Rightarrow> (error + removal) \<times> Hooks" where
  "onQuery fn options h =
     (case invariant (typeof fn = ''function'') (Some hook_msg) of
        Inl e \<Rightarrow> (Inl e, h)
      | Inr _ \<Rightarrow>
          if includeInternal options = Some True
          then (Inr (\<lambda>t. case Set_delete fn (set_onQueryAll t) of
                            (deleted, qa) \<Rightarrow>
                              if deleted
                              then (case Set_delete fn (set_onQuery t) of
                                      (deleted', q) \<Rightarrow>
                                        (deleted', t\<lparr>set_onQueryAll := qa, set_onQuery := q\<rparr>))
                              else (False, t\<lparr>set_onQueryAll := qa\<rparr>)),
                h\<lparr>set_onQuery := Set_add fn (set_onQuery h),
                  set_onQueryAll := Set_add fn (set_onQueryAll h)\<rparr>)
          else (Inr (\<lambda>t. case Set_delete fn (set_onQuery t) of
                            (deleted, q) \<Rightarrow> (deleted, t\<lparr>set_onQuery := q\<rparr>)),
                h\<lparr>set_onQuery := Set_add fn (set_onQuery h)\<rparr>))"

definition beforeCreate :: "jsval \<Rightarrow> Hooks \<Rightarrow> (error + removal) \<times> Hooks" where
  "beforeCreate fn h =
     (case invariant (typeof fn = ''function'') (Some hook_msg) of
        Inl e \<Rightarrow> (Inl e, h)
      | Inr _ \<Rightarrow>
          (Inr (\<lambda>t. case Set_delete fn (set_beforeCreate t) of
                      (deleted, s) \<Rightarrow> (deleted, t\<lparr>set_beforeCreate := s\<rparr>)),
           h\<lparr>set_beforeCreate := Set_add fn (set_beforeCreate h)\<rparr>))"

definition afterCreate :: "jsval \<Rightarrow> Hooks \<Rightarrow> (error + removal) \<times> Hooks" where
  "afterCreate fn h =
     (case invariant (typeof fn = ''function'') (Some hook_msg) of
        Inl e \<Rightarrow> (Inl e, h)
      | Inr _ \<Rightarrow>
          (Inr (\<lambda>t. case Set_delete fn (set_afterCreate t) of
                      (deleted, s) \<Rightarrow> (deleted, t\<lparr>set_afterCreate := s\<rparr>)),
           h\<lparr>set_afterCreate := Set_add fn (set_afterCreate h)\<rparr>))"

definition beforeUpdate :: "jsval \<Rightarrow> Hooks \<Rightarrow> (error + removal) \<times> Hooks" where
  "beforeUpdate fn h =
     (case invariant (typeof fn = ''function'') (Some hook_msg) of
        Inl e \<Rightarrow> (Inl e, h)
      | Inr _ \<Rightarrow>
          (Inr (\<lambda>t. case Set_delete fn (set_beforeUpdate t) of
                      (deleted, s) \<Rightarrow> (deleted, t\<lparr>set_beforeUpdate := s\<rparr>)),
           h\<lparr>set_beforeUpdate := Set_add fn (set_beforeUpdate h)\<rparr>))"

definition afterUpdate :: "jsval \<Rightarrow> Hooks \<Rightarrow> (error + removal) \<times> Hooks" where
  "afterUpdate fn h =
     (case invariant (typeof fn = ''function'') (Some hook_msg) of
        Inl e \<Rightarrow> (Inl e, h)
      | Inr _ \<Rightarrow>
          (Inr (\<lambda>t. case Set_delete fn (set_afterUpdate t) of
                      (deleted, s) \<Rightarrow> (deleted, t\<lparr>set_afterUpdate := s\<rparr>)),
           h\<lparr>set_afterUpdate := Set_add fn (set_afterUpdate h)\<rparr>))"

definition beforeRemove :: "jsval \<Rightarrow> Hooks \<Rightarrow> (error + removal) \<times> Hooks" where
  "beforeRemove fn h =
     (case invariant (typeof fn = ''function'') (Some hook_msg) of
        Inl e \<Rightarrow> (Inl e, h)
      | Inr _ \<Rightarrow>
          (Inr (\<lambda>t. case Set_delete fn (set_beforeRemove t) of
                      (deleted, s) \<Rightarrow> (deleted, t\<lparr>set_beforeRemove := s\<rparr>)),
           h\<lparr>set_beforeRemove := Set_add fn (set_beforeRemove h)\<rparr>))"

definition afterRemove :: "jsval \<Rightarrow> Hooks \<Rightarrow> (error + removal) \<times> Hooks" where
  "afterRemove fn h =
     (case invariant (typeof fn = ''function'') (Some hook_msg) of
        Inl e \<Rightarrow> (Inl e, h)
      | Inr _ \<Rightarrow>
          (Inr (\<lambda>t. case Set_delete fn (set_afterRemove t) of
                      (deleted, s) \<Rightarrow> (deleted, t\<lparr>set_afterRemove := s\<rparr>)),
           h\<lparr>set_afterRemove := Set_add fn (set_afterRemove h)\<rparr>))"

subsection \<open>Firing\<close>

text \<open>
  What the callbacks do is a parameter: a table from function identities to their
  behaviour on the arguments and on the state, returning a value or throwing (a
  rejected promise is a throw at the \<open>await\<close>). The state a callback acts on is the
  registry itself, on which it may register and unregister observers while the firing
  is in progress, together with a world \<open>'w\<close> of other effects. Calling a value that is
  not a function is JavaScript's \<open>TypeError\<close>.
\<close>

type_synonym 'w callbacks = "fn_id \<Rightarrow> jsval list \<Rightarrow> Hooks \<times> 'w \<Rightarrow> (error + jsval) \<times> (Hooks \<times> 'w)"

definition call_fn ::
  "'w callbacks \<Rightarrow> jsval \<Rightarrow> jsval list \<Rightarrow> Hooks \<times> 'w \<Rightarrow> (error + jsval) \<times> (Hooks \<times> 'w)" where
  "call_fn cbs fn args s =
     (case fn of
        Function f \<Rightarrow> cbs f args s
      | _ \<Rightarrow> (Inl (TypeError ''fn is not a function''), s))"

record HookResult =
  prevented :: bool

text \<open>One entry of the observation log: which callback ran, on what, with what outcome.\<close>

record invocation =
  callee :: jsval
  arguments :: "jsval list"
  outcome :: "error + jsval"





text \<open>
  \<open>for (const fn of fns) { ... await fn(...) ... }\<close>. \<open>fns\<close> is the set object of the
  registry, not a copy: the iteration holds a position \<open>index\<close> in its entries and
  reads them anew at every step from the registry as the callbacks have left it. An
  empty entry is skipped; a callback runs on the state the previous one left; a throw
  ends the loop and rejects; a result identical to the sentinel sets
  \<open>result.prevented\<close> and the loop goes on. Callbacks that keep adding observers keep the
  loop running for ever: the value is then \<open>None\<close>.
\<close>

partial_function (option) for_of ::
  "'w callbacks \<Rightarrow> (Hooks \<Rightarrow> jsval option list) \<Rightarrow> (error + jsval list) \<Rightarrow> nat \<Rightarrow> HookResult
     \<Rightarrow> invocation list \<Rightarrow> Hooks \<times> 'w
     \<Rightarrow> ((error + HookResult) \<times> invocation list \<times> (Hooks \<times> 'w)) option" where
  "for_of cbs fns argsf index result log s =
     (if index < length (fns (fst s))
      then (case fns (fst s) ! index of
              None \<Rightarrow> for_of cbs fns argsf (Suc index) result log s
            | Some fn \<Rightarrow>
                (case argsf of
                   Inl e \<Rightarrow> Some (Inl e, log, s)
                 | Inr args \<Rightarrow>
                     (case call_fn cbs fn args s of
                        (Inl e, s') \<Rightarrow>
                          Some (Inl e,
                                log @ [\<lparr>callee = fn, arguments = args, outcome = Inl e\<rparr>], s')
                      | (Inr thisResult, s') \<Rightarrow>
                          for_of cbs fns argsf (Suc index)
                            (if thisResult = EventCancellation
                             then result\<lparr>prevented := True\<rparr> else result)
                            (log @ [\<lparr>callee = fn, arguments = args,
                                     outcome = Inr thisResult\<rparr>]) s')))
      else Some (Inr result, log, s))"



section \<open>The embedded backend (class \<open>Trilogy\<close> over sql.js)\<close>

text \<open>
  Identifiers cannot begin with an underscore here: the methods \<open>_init\<close>,
  \<open>_errorHandler\<close>, \<open>_isValidWhere\<close>, \<open>_sanitizeWhere\<close> and \<open>_parseTablePath\<close> appear
  without it, and \<open>_write\<close> is \<open>write_image\<close>.
\<close>

subsection \<open>The libraries the class calls\<close>

type_synonym bytes = "nat list"

text \<open>
  The query builder (knex) as the chain of calls made on it; its rendering to SQL text
  belongs to the library and is the parameter \<open>toString\<close> below.
\<close>

datatype knex_builder =
    Table string
  | Update knex_builder string string
  | Count knex_builder string
  | CountDistinct knex_builder string
  | WhereArgs knex_builder "jsval list"
  | WhereFn knex_builder fn_id
  | WhereObject knex_builder jsval

text \<open>
  sql.js and knex are parameters. The engine object is mutated in place, so a statement
  that throws may still leave a changed engine behind: \<open>db_run\<close> and \<open>db_exec\<close> return
  the engine in both cases. \<open>db_getAsObject\<close> stands for \<open>prepare(query).getAsObject({})\<close>.
\<close>

record 'db libs =
  Database :: "bytes option \<Rightarrow> 'db"
  db_run :: "string \<Rightarrow> 'db \<Rightarrow> (error + unit) \<times> 'db"
  db_exec :: "string \<Rightarrow> 'db \<Rightarrow> (error + jsval) \<times> 'db"
  db_export :: "'db \<Rightarrow> error + bytes"
  db_getAsObject :: "string \<Rightarrow> 'db \<Rightarrow> error + jsval"
  toString :: "knex_builder \<Rightarrow> string"

text \<open>
  The file system behind fs-jetpack: the files with their contents, and the paths the
  system refuses to write (with the error it throws).
\<close>

record filesystem =
  files :: "string \<rightharpoonup> bytes"
  write_failure :: "string \<Rightarrow> error option"

definition jetpack_exists :: "string \<Rightarrow> filesystem \<Rightarrow> bool" where
  "jetpack_exists path fs = (files fs path \<noteq> None)"

definition jetpack_read :: "string \<Rightarrow> filesystem \<Rightarrow> bytes option" where
  "jetpack_read path fs = files fs path"

definition jetpack_file :: "string \<Rightarrow> bytes \<Rightarrow> filesystem \<Rightarrow> error + filesystem" where
  "jetpack_file path content fs =
     (case write_failure fs path of
        Some e \<Rightarrow> Inl e
      | None \<Rightarrow> Inr (fs\<lparr>files := (files fs)(path \<mapsto> content)\<rparr>))"

subsection \<open>The instance\<close>

text \<open>
  The fields of a \<open>Trilogy\<close> object. The two callbacks of the options are observed
  through what they receive: \<open>verbose_log\<close> collects the queries passed to
  \<open>this.verbose\<close>, \<open>listened\<close> the errors passed to \<open>this.errorListener\<close> when one is
  installed.
\<close>

record 'db Trilogy =
  fileName :: string
  db :: "'db option"
  errorListener :: bool
  verbose_log :: "string list"
  listened :: "error list"

definition ERR_UNKNOWN :: string where
  "ERR_UNKNOWN = ''an unknown error occurred. Check the stacktrace or report an\<newline>     issue if there is a problem with trilogy itself.''"

definition ERR_COL_MISSING :: string where
  "ERR_COL_MISSING = ''column name is required. Pass it as an independent argument\<newline>     or as dot-notation along with the table argument.''"

definition ERR_NO_DATABASE :: string where
  "ERR_NO_DATABASE = ''Could not write - no database initialized.''"

text \<open>
  \<open>_errorHandler(err, msg)\<close>: an \<open>Error\<close> is kept, a string becomes a new \<open>Error\<close>
  (\<open>arguments.length === 1\<close> is \<open>msg = None\<close>); the error is renamed, handed to the
  listener, and comes back as the reason of a rejected promise.
\<close>

datatype err_arg = AnError error | AString string

definition errorHandler :: "err_arg \<Rightarrow> string option \<Rightarrow> 'db Trilogy \<Rightarrow> error \<times> 'db Trilogy" where
  "errorHandler err msg t =
     (let e = (case err of
                 AnError e0 \<Rightarrow> e0
               | AString s \<Rightarrow>
                   (case msg of
                      None \<Rightarrow> Error (''Trilogy :: '' @ s)
                    | Some m \<Rightarrow> Error (''Trilogy'' @ s @ '' :: '' @ m)));
          e' = e\<lparr>name := ''TrilogyError''\<rparr>
      in (e', if errorListener t then t\<lparr>listened := listened t @ [e']\<rparr> else t))"

text \<open>
  \<open>_write()\<close>: a missing engine is reported and execution goes on into the \<open>try\<close>, where
  \<open>this.db.export()\<close> on \<open>null\<close> throws; whatever the \<open>try\<close> throws is reported through
  \<open>_errorHandler\<close>, whose rejected promise is dropped. The method itself never throws.
\<close>

definition write_image :: "'db libs \<Rightarrow> 'db Trilogy \<Rightarrow> filesystem \<Rightarrow> 'db Trilogy \<times> filesystem" where
  "write_image lib t fs =
     (let t1 = (if db t = None then snd (errorHandler (AString ERR_NO_DATABASE) None t) else t)
      in case (case db t1 of
                 None \<Rightarrow> Inl (TypeError ''Cannot read property export of null'')
               | Some d \<Rightarrow>
                   (case db_export lib d of
                      Inl e \<Rightarrow> Inl e
                    | Inr data \<Rightarrow> jetpack_file (fileName t1) data fs)) of
           Inl e \<Rightarrow> (snd (errorHandler (AnError e) None t1), fs)
         | Inr fs' \<Rightarrow> (t1, fs'))"

definition init :: "'db libs \<Rightarrow> 'db Trilogy \<Rightarrow> filesystem \<Rightarrow> 'db Trilogy \<times> filesystem" where
  "init lib t fs =
     (if jetpack_exists (fileName t) fs
      then (let file = jetpack_read (fileName t) fs
            in (t\<lparr>db := Some (Database lib file)\<rparr>, fs))
      else write_image lib (t\<lparr>db := Some (Database lib None)\<rparr>) fs)"

text \<open>
  The constructor: \<open>opts.errorListener\<close> is kept when it is a function (\<open>listener\<close>).
\<close>

definition new_Trilogy ::
  "'db libs \<Rightarrow> string \<Rightarrow> bool \<Rightarrow> filesystem \<Rightarrow> error + 'db Trilogy \<times> filesystem" where
  "new_Trilogy lib path listener fs =
     (if path = [] then Inl (Error ''Trilogy constructor must be provided a file path.'')
      else Inr (init lib \<lparr>fileName = path, db = None, errorListener = listener,
                          verbose_log = [], listened = []\<rparr> fs))"

text \<open>
  \<open>run(query)\<close> and \<open>exec(query)\<close>; the query is taken after its \<open>toString\<close> conversion.
\<close>

definition run ::
  "'db libs \<Rightarrow> string \<Rightarrow> 'db Trilogy \<Rightarrow> filesystem \<Rightarrow> (error + unit) \<times> 'db Trilogy \<times> filesystem" where
  "run lib query t fs =
     (case db t of
        None \<Rightarrow>
          (case errorHandler (AString ERR_NO_DATABASE) None t of
             (e, t') \<Rightarrow> (Inl e, t', fs))
      | Some d \<Rightarrow>
          (let t1 = t\<lparr>verbose_log := verbose_log t @ [query]\<rparr>
           in case db_run lib query d of
                (Inl e, d') \<Rightarrow> (Inl e, t1\<lparr>db := Some d'\<rparr>, fs)
              | (Inr u, d') \<Rightarrow>
                  (case write_image lib (t1\<lparr>db := Some d'\<rparr>) fs of
                     (t2, fs') \<Rightarrow> (Inr (), t2, fs'))))"

definition exec ::
  "'db libs \<Rightarrow> string \<Rightarrow> 'db Trilogy \<Rightarrow> filesystem \<Rightarrow> (error + jsval) \<times> 'db Trilogy \<times> filesystem" where
  "exec lib query t fs =
     (case db t of
        None \<Rightarrow>
          (case errorHandler (AString ERR_NO_DATABASE) None t of
             (e, t') \<Rightarrow> (Inl e, t', fs))
      | Some d \<Rightarrow>
          (let t1 = t\<lparr>verbose_log := verbose_log t @ [query]\<rparr>
           in case db_exec lib query d of
                (Inl e, d') \<Rightarrow> (Inl e, t1\<lparr>db := Some d'\<rparr>, fs)
              | (Inr val, d') \<Rightarrow> (Inr val, t1\<lparr>db := Some d'\<rparr>, fs)))"

subsection \<open>Criteria\<close>

fun isPlainObject :: "jsval \<Rightarrow> bool" where
  "isPlainObject (PlainObject kvs) = True"
| "isPlainObject v = False"

fun isFunction :: "jsval \<Rightarrow> bool" where
  "isFunction (Function f) = True"
| "isFunction v = False"

definition isValidWhere :: "jsval \<Rightarrow> bool" where
  "isValidWhere whr =
     (if isPlainObject whr then True
      else case whr of
             Array xs \<Rightarrow> (let len = length xs in len = 2 \<or> len = 3)
           | _ \<Rightarrow> isFunction whr)"

definition sanitizeWhere :: "jsval \<Rightarrow> knex_builder \<Rightarrow> knex_builder" where
  "sanitizeWhere whr partial =
     (case whr of
        Array xs \<Rightarrow> WhereArgs partial xs
      | Function f \<Rightarrow> WhereFn partial f
      | _ \<Rightarrow> WhereObject partial whr)"

definition InvalidCriteriaKind :: error where
  "InvalidCriteriaKind =
     \<lparr>name = ''InvalidCriteriaKind'', message = ''an object, array, or function''\<rparr>"

text \<open>
  Modelled from the spec: the argument validator arify is a third-party library outside
  the sources. Of its checks only the one on \<open>where\<close> is kept: an omitted criteria takes
  the default \<open>['1', '=', '1']\<close>; a given one must pass the \<open>test\<close> (\<open>_isValidWhere\<close>),
  otherwise the call fails with the validation failure the spec names
  \<open>InvalidCriteriaKind\<close> before the wrapped function body runs.
\<close>

definition arify_where :: "jsval option \<Rightarrow> error + jsval" where
  "arify_where whr =
     (case whr of
        None \<Rightarrow> Inr (Array [Str ''1'', Str ''='', Str ''1''])
      | Some v \<Rightarrow> if isValidWhere v then Inr v else Inl InvalidCriteriaKind)"


subsection \<open>Strings\<close>

text \<open>
  \<open>String.prototype.split\<close> on a one-character separator, \<open>indexOf\<close> with a start
  position (\<open>-1\<close> when absent), \<open>slice\<close> (a negative end counts from the end) and
  \<open>substr\<close> (a negative length is an empty result). A destructured array element that
  is missing is \<open>undefined\<close>: \<open>None\<close>.
\<close>

fun split :: "char \<Rightarrow> string \<Rightarrow> string list" where
  "split c [] = [[]]"
| "split c (x # xs) =
     (if x = c then [] # split c xs
      else case split c xs of
             [] \<Rightarrow> [[x]]
           | p # ps \<Rightarrow> (x # p) # ps)"

fun index_from :: "char \<Rightarrow> string \<Rightarrow> nat \<Rightarrow> int" where
  "index_from c [] i = - 1"
| "index_from c (x # xs) i = (if x = c then int i else index_from c xs (Suc i))"

definition indexOf :: "string \<Rightarrow> char \<Rightarrow> nat \<Rightarrow> int" where
  "indexOf s c start = index_from c (drop start s) start"

definition slice :: "string \<Rightarrow> int \<Rightarrow> int \<Rightarrow> string" where
  "slice s start fin =
     (let len = int (length s);
          from = (if start < 0 then max (len + start) 0 else min start len);
          to = (if fin < 0 then max (len + fin) 0 else min fin len)
      in take (nat (to - from)) (drop (nat from) s))"

definition substr :: "string \<Rightarrow> nat \<Rightarrow> int \<Rightarrow> string" where
  "substr s start len = take (nat len) (drop start s)"

definition element :: "'a list \<Rightarrow> nat \<Rightarrow> 'a option" where
  "element xs i = (if i < length xs then Some (xs ! i) else None)"

text \<open>The decimal text of an integral number, as \<open>'' + amount\<close> produces it.\<close>

definition digit :: "nat \<Rightarrow> char" where
  "digit n = ''0123456789'' ! n"

fun digits :: "nat \<Rightarrow> string" where
  "digits n =
     (if n < 10 then [digit n]
      else digits (n div 10) @ [digit (n mod 10)])"

declare digits.simps [simp del]

definition number_text :: "int \<Rightarrow> string" where
  "number_text n = (if n < 0 then CHR ''-'' # digits (nat (- n)) else digits (nat n))"

subsection \<open>Table paths\<close>

function parseTablePath ::
  "string \<Rightarrow> string option \<Rightarrow> string option \<Rightarrow> string \<times> string option \<times> string option" where
  "parseTablePath table column row =
     (if CHR ''.'' \<in> set table
      then (let parts = split CHR ''.'' table;
                top = hd parts;
                inner = element parts 1;
                nested = element parts 2
            in parseTablePath top inner nested)
      else if CHR ''['' \<in> set table
      then (let opener = nat (indexOf table CHR ''['' 0);
                closer = indexOf table CHR '']'' opener;
                top = substr table 0 (int opener);
                inner = slice table (int opener + 1) closer;
                rowIndex = length top + length inner + 2;
                nested = (if rowIndex < length table
                          then (let extra = slice table (int rowIndex + 1) (int (length table));
                                    rowCloser = indexOf extra CHR '']'' 0
                                in Some (substr extra 0 rowCloser))
                          else None)
            in parseTablePath top (Some inner) nested)
      else (table, column, row))"
  by pat_completeness auto
termination parseTablePath
proof (relation "measure (\<lambda>(table, column, row). length table)", goal_cases)
  case 1
  show ?case by simp
next
  case (2 table column row parts top inner nested)
  have ne: "split c s \<noteq> []" for c s
    by (induction s) (auto split: list.splits)
  have hd: "hd (split c s) = takeWhile (\<lambda>x. x \<noteq> c) s" for c s
    by (induction s) (auto simp: ne split: list.splits)
  have "length (takeWhile (\<lambda>x. x \<noteq> CHR ''.'') table) < length table"
    using 2(1) by (induction table) auto
  then show ?case using 2 by (simp add: hd)
next
  case (3 table column row opener closer top inner rowIndex nested)
  have found: "c \<in> set s \<Longrightarrow> index_from c s i = int (i + length (takeWhile (\<lambda>x. x \<noteq> c) s))"
    for c s i
    by (induction s arbitrary: i) auto
  have "length (takeWhile (\<lambda>x. x \<noteq> CHR ''['') table) < length table"
    using 3(2) by (induction table) auto
  then show ?case using 3 by (simp add: substr_def indexOf_def found)
qed

declare parseTablePath.simps [simp del]

subsection \<open>Operations\<close>

text \<open>
  \<open>decrement(table, column?, amount?, where?, allowNegative?)\<close>, with the defaults arify
  fills in (\<open>amount\<close> 1, \<open>allowNegative\<close> false). \<open>rawStr\<close> is the expression handed to
  \<open>knex.raw\<close>.
\<close>

definition rawStr :: "string \<Rightarrow> int \<Rightarrow> bool \<Rightarrow> string" where
  "rawStr col amount allowNegative =
     (if allowNegative then col @ '' - '' @ number_text amount
      else ''MAX(0, '' @ col @ '' - '' @ number_text amount @ '')'')"

definition decrement ::
  "'db libs \<Rightarrow> string \<Rightarrow> string option \<Rightarrow> int option \<Rightarrow> jsval option \<Rightarrow> bool option
     \<Rightarrow> 'db Trilogy \<Rightarrow> filesystem \<Rightarrow> (error + unit) \<times> 'db Trilogy \<times> filesystem" where
  "decrement lib table column amount whr allowNegative t fs =
     (case arify_where whr of
        Inl e \<Rightarrow> (Inl e, t, fs)
      | Inr w \<Rightarrow>
          (let args_amount = (case amount of None \<Rightarrow> 1 | Some n \<Rightarrow> n);
               args_allowNegative = (case allowNegative of None \<Rightarrow> False | Some b \<Rightarrow> b)
           in case parseTablePath table column None of
                (tbl, col, row) \<Rightarrow>
                  if col = None \<or> col = Some []
                  then (case errorHandler (AString ERR_COL_MISSING) None t of
                          (e, t') \<Rightarrow> (Inl e, t', fs))
                  else (let partial = Table tbl;
                            updated = Update partial (the col)
                                        (rawStr (the col) args_amount args_allowNegative);
                            query = sanitizeWhere w updated
                        in case run lib (toString lib query) t fs of
                             (Inl e, t', fs') \<Rightarrow>
                               (case errorHandler (AnError e) None t' of
                                  (e', t'') \<Rightarrow> (Inl e', t'', fs'))
                           | (Inr u, t', fs') \<Rightarrow> (Inr (), t', fs'))))"

text \<open>
  \<open>count(table?, column?, where?, options?)\<close>. \<open>'count' in res\<close> and \<open>res.count\<close> on a
  plain object are a lookup of the key.
\<close>

fun has_property :: "string \<Rightarrow> jsval \<Rightarrow> bool" where
  "has_property k (PlainObject kvs) = (map_of kvs k \<noteq> None)"
| "has_property k v = False"

fun get_property :: "jsval \<Rightarrow> string \<Rightarrow> jsval" where
  "get_property (PlainObject kvs) k = (case map_of kvs k of None \<Rightarrow> Undefined | Some v \<Rightarrow> v)"
| "get_property v k = Undefined"

definition count ::
  "'db libs \<Rightarrow> string option \<Rightarrow> string option \<Rightarrow> jsval option \<Rightarrow> bool option
     \<Rightarrow> 'db Trilogy \<Rightarrow> (error + jsval) \<times> 'db Trilogy" where
  "count lib table column whr distinct_option t =
     (case arify_where whr of
        Inl e \<Rightarrow> (Inl e, t)
      | Inr w \<Rightarrow>
          (let args_table = (case table of None \<Rightarrow> ''sqlite_master'' | Some s \<Rightarrow> s);
               args_column = (case column of None \<Rightarrow> ''*'' | Some s \<Rightarrow> s);
               partial = (if distinct_option = Some True
                          then CountDistinct (Table args_table) (args_column @ '' as count'')
                          else Count (Table args_table) (args_column @ '' as count''));
               query = toString lib (sanitizeWhere w partial)
           in case (case db t of
                      None \<Rightarrow> Inl (TypeError ''Cannot read property prepare of null'')
                    | Some d \<Rightarrow> db_getAsObject lib query d) of
                Inl e \<Rightarrow>
                  (case errorHandler (AnError e) None t of
                     (e', t') \<Rightarrow> (Inl e', t'))
              | Inr res \<Rightarrow>
                  if isPlainObject res \<and> has_property ''count'' res
                  then (Inr (get_property res ''count''), t)
                  else (Inr (Num 0), t)))"

subsection \<open>What the raw expression means to the engine\<close>

text \<open>
  The expressions \<open>rawStr\<close> can produce, with their SQL text and their value on a row of
  integer columns (\<open>MAX\<close> with several arguments is the largest of them).
\<close>

datatype sql_expr =
    Column string
  | Number int
  | Minus sql_expr sql_expr
  | MaxFn sql_expr sql_expr

fun sql_text :: "sql_expr \<Rightarrow> string" where
  "sql_text (Column c) = c"
| "sql_text (Number n) = number_text n"
| "sql_text (Minus a b) = sql_text a @ '' - '' @ sql_text b"
| "sql_text (MaxFn a b) = ''MAX('' @ sql_text a @ '', '' @ sql_text b @ '')''"

fun sql_value :: "(string \<Rightarrow> int) \<Rightarrow> sql_expr \<Rightarrow> int" where
  "sql_value row (Column c) = row c"
| "sql_value row (Number n) = n"
| "sql_value row (Minus a b) = sql_value row a - sql_value row b"
| "sql_value row (MaxFn a b) = max (sql_value row a) (sql_value row b)"

section \<open>Notions used in the statements\<close>












subsection \<open>Concrete inputs\<close>

text \<open>
  Callbacks on a world that records the order of the calls: function 0 throws,
  function 7 answers the cancellation sentinel, function 3 invokes the removal
  capabilities of function 2 as an after-create hook and as a default on-query
  observer, and every other one only answers \<open>undefined\<close>.
\<close>

definition default_options :: OnQueryOptions where
  "default_options = \<lparr>includeInternal = None\<rparr>"

definition internal_options :: OnQueryOptions where
  "internal_options = \<lparr>includeInternal = Some True\<rparr>"



text \<open>
  A registry holding function 2 as a default on-query observer, and the registration
  of function 7 on it with \<open>includeInternal: true\<close>.
\<close>

definition demo_registry :: Hooks where
  "demo_registry = snd (onQuery (Function 2) default_options new_Hooks)"







text \<open>
  A toy engine whose state is a list that grows by one entry (the number of statements
  run before) with each statement, and whose image is that list; statements containing
  an exclamation mark are rejected with a syntax error. The renderer writes a recognisable SQL text.
\<close>

fun demo_toString :: "knex_builder \<Rightarrow> string" where
  "demo_toString (Table tb) = tb"
| "demo_toString (Update p col raw) = ''update '' @ demo_toString p @ '' set '' @ col @ '' = '' @ raw"
| "demo_toString (Count p c) = ''select count('' @ c @ '') from '' @ demo_toString p"
| "demo_toString (CountDistinct p c) =
     ''select count(distinct '' @ c @ '') from '' @ demo_toString p"
| "demo_toString (WhereArgs p xs) = demo_toString p @ '' where ?''"
| "demo_toString (WhereFn p f) = demo_toString p @ '' where ?''"
| "demo_toString (WhereObject p v) = demo_toString p @ '' where ?''"

definition demo_lib :: "bytes libs" where
  "demo_lib =
     \<lparr>Database = (\<lambda>file. case file of None \<Rightarrow> [] | Some content \<Rightarrow> content),
      db_run = (\<lambda>query d. if CHR ''!'' \<in> set query
                           then (Inl (Error ''syntax error''), d)
                           else (Inr (), d @ [length d])),
      db_exec = (\<lambda>query d. if CHR ''!'' \<in> set query
                            then (Inl (Error ''syntax error''), d)
                            else (Inr (Array []), d)),
      db_export = (\<lambda>d. Inr d),
      db_getAsObject = (\<lambda>query d. Inr (PlainObject [(''count'', Num (int (length d)))])),
      toString = demo_toString\<rparr>"

definition demo_fs :: filesystem where
  "demo_fs = \<lparr>files = Map.empty, write_failure = (\<lambda>path. None)\<rparr>"

definition demo_instance :: "bytes Trilogy" where
  "demo_instance =
     \<lparr>fileName = ''storage.db'', db = Some [], errorListener = True,
      verbose_log = [], listened = []\<rparr>"

definition fresh_instance :: "bytes Trilogy" where
  "fresh_instance =
     \<lparr>fileName = ''storage.db'', db = None, errorListener = True,
      verbose_log = [], listened = []\<rparr>"

definition demo_row :: "string \<Rightarrow> int" where
  "demo_row c = (if c = ''age'' then 18 else 0)"

text \<open>
  The expression a decrement of \<open>col\<close> by \<open>amount\<close> assigns to the column: the
  difference, under \<open>MAX(0, _)\<close> unless negative values are allowed.
\<close>

definition decrement_expr :: "string \<Rightarrow> int \<Rightarrow> bool \<Rightarrow> sql_expr" where
  "decrement_expr col amount allowNegative =
     (if allowNegative then Minus (Column col) (Number amount)
      else MaxFn (Number 0) (Minus (Column col) (Number amount)))"

text \<open>The statement \<open>decrement\<close> hands to \<open>run\<close>, and the one \<open>count\<close> prepares.\<close>

definition decrement_statement ::
  "'db libs \<Rightarrow> string \<Rightarrow> string \<Rightarrow> int option \<Rightarrow> jsval \<Rightarrow> bool option \<Rightarrow> string" where
  "decrement_statement lib tbl col amount w allowNegative =
     toString lib (sanitizeWhere w (Update (Table tbl) col
       (sql_text (decrement_expr col (case amount of None \<Rightarrow> 1 | Some n \<Rightarrow> n)
                    (allowNegative = Some True)))))"

definition count_statement ::
  "'db libs \<Rightarrow> string option \<Rightarrow> string option \<Rightarrow> jsval \<Rightarrow> bool option \<Rightarrow> string" where
  "count_statement lib table column w distinct_option =
     toString lib (sanitizeWhere w
       ((if distinct_option = Some True then CountDistinct else Count)
          (Table (case table of None \<Rightarrow> ''sqlite_master'' | Some s \<Rightarrow> s))
          ((case column of None \<Rightarrow> ''*'' | Some s \<Rightarrow> s) @ '' as count'')))"

section \<open>Properties of the hook registry\<close>

subsection \<open>Sets and the loop\<close>


lemma set_Set_values: "x \<in> set (Set_values es) \<longleftrightarrow> Some x \<in> set es"
  by (induction es rule: Set_values.induct) auto


lemma Set_values_delete:
  "Set_values (snd (Set_delete x es)) = removeAll x (Set_values es)"
  unfolding Set_delete_def snd_conv
  by (induction es rule: Set_values.induct) auto

lemma fst_Set_delete: "fst (Set_delete x es) \<longleftrightarrow> x \<in> set (Set_values es)"
  by (simp add: Set_delete_def set_Set_values)

lemma Set_delete_absent: "x \<notin> set (Set_values es) \<Longrightarrow> snd (Set_delete x es) = es"
  unfolding Set_delete_def snd_conv set_Set_values
  by (induction es) auto











lemma for_of_no_args:
  "index < length (fns (fst s)) \<Longrightarrow> fns (fst s) ! index = Some fn \<Longrightarrow>
     for_of cbs fns (Inl e) index result log s = Some (Inl e, log, s)"
  by (subst for_of.simps) simp

























subsection \<open>Firing\<close>







subsection \<open>Registration and removal\<close>




text \<open>
  C10. Each of the seven registration methods, given a callback that is not a
  function, throws a \<open>TrilogyError\<close> with the message
  \<open>hook callbacks must be of type function\<close> and leaves the registry as it was.
\<close>

theorem registration_rejects_non_function:
  assumes "typeof fn \<noteq> ''function''"
  shows "onQuery fn options h = (Inl (TrilogyError ''hook callbacks must be of type function''), h)
       \<and> beforeCreate fn h = (Inl (TrilogyError ''hook callbacks must be of type function''), h)
       \<and> afterCreate fn h = (Inl (TrilogyError ''hook callbacks must be of type function''), h)
       \<and> beforeUpdate fn h = (Inl (TrilogyError ''hook callbacks must be of type function''), h)
       \<and> afterUpdate fn h = (Inl (TrilogyError ''hook callbacks must be of type function''), h)
       \<and> beforeRemove fn h = (Inl (TrilogyError ''hook callbacks must be of type function''), h)
       \<and> afterRemove fn h = (Inl (TrilogyError ''hook callbacks must be of type function''), h)"
  using assms
  by (simp add: onQuery_def beforeCreate_def afterCreate_def beforeUpdate_def
        afterUpdate_def beforeRemove_def afterRemove_def invariant_def hook_msg_def)

theorem registration_rejects_non_function_witness:
  "typeof (Str ''not a function'') \<noteq> ''function''
   \<and> onQuery (Str ''not a function'') internal_options demo_registry
       = (Inl \<lparr>name = ''TrilogyError'', message = ''hook callbacks must be of type function''\<rparr>,
          demo_registry)
   \<and> afterRemove (Str ''not a function'') demo_registry
       = (Inl \<lparr>name = ''TrilogyError'', message = ''hook callbacks must be of type function''\<rparr>,
          demo_registry)"
proof -
  have n: "typeof (Str ''not a function'') \<noteq> ''function''" by simp
  show ?thesis
    using registration_rejects_non_function [OF n, of internal_options demo_registry]
    by (simp add: TrilogyError_def)
qed

section \<open>Properties of the embedded backend\<close>

subsection \<open>Auxiliary facts\<close>

lemma write_image_ok:
  assumes "db t = Some d" and "db_export lib d = Inr img"
    and "write_failure fs (fileName t) = None"
  shows "write_image lib t fs = (t, fs\<lparr>files := (files fs)(fileName t \<mapsto> img)\<rparr>)"
  using assms by (simp add: write_image_def jetpack_file_def)

text \<open>
  A failing export or file write is not propagated: \<open>_write\<close> hands the error to the
  error handler and returns, the file system being as before.
\<close>

lemma write_image_reports_failure:
  assumes "db t = Some d" and "db_export lib d = Inr img"
    and "write_failure fs (fileName t) = Some e"
  shows "write_image lib t fs = (snd (errorHandler (AnError e) None t), fs)"
  using assms by (simp add: write_image_def jetpack_file_def)

lemma run_fails:
  assumes "db t = Some d" and "db_run lib query d = (Inl e, d')"
  shows "run lib query t fs =
           (Inl e, t\<lparr>verbose_log := verbose_log t @ [query], db := Some d'\<rparr>, fs)"
  using assms by (simp add: run_def Let_def)

lemma number_text_0: "number_text 0 = ''0''"
  by (simp add: number_text_def digits.simps digit_def)

lemma number_text_1: "number_text 1 = ''1''"
  by (simp add: number_text_def digits.simps digit_def)

lemma rawStr_sql_text:
  "rawStr col amount allowNegative = sql_text (decrement_expr col amount allowNegative)"
  by (simp add: rawStr_def decrement_expr_def number_text_0)

lemma decrement_runs:
  assumes "arify_where whr = Inr w"
    and "parseTablePath table column None = (tbl, Some col, row)"
    and "col \<noteq> []"
  shows "decrement lib table column amount whr allowNegative t fs =
           (case run lib (decrement_statement lib tbl col amount w allowNegative) t fs of
              (Inl e, t', fs') \<Rightarrow>
                (case errorHandler (AnError e) None t' of (e', t'') \<Rightarrow> (Inl e', t'', fs'))
            | (Inr u, t', fs') \<Rightarrow> (Inr (), t', fs'))"
proof -
  have b: "(case allowNegative of None \<Rightarrow> False | Some b \<Rightarrow> b) = (allowNegative = Some True)"
    by (cases allowNegative) auto
  show ?thesis
    using assms
    by (simp add: decrement_def decrement_statement_def Let_def b flip: rawStr_sql_text)
qed

subsection \<open>Persistence\<close>

text \<open>
  C2. When the engine accepts a statement given to \<open>run\<close> (and the export and the file
  write go through), the image exported from the engine as the statement left it
  becomes the content of the backing file; \<open>exec\<close>, whatever the statement and the
  state, leaves the file system as it was.
\<close>

theorem run_exports_exec_does_not:
  "(db t = Some d \<and> db_run lib query d = (Inr (), d') \<and> db_export lib d' = Inr img
      \<and> write_failure fs (fileName t) = None
    \<longrightarrow> run lib query t fs =
          (Inr (), t\<lparr>verbose_log := verbose_log t @ [query], db := Some d'\<rparr>,
           fs\<lparr>files := (files fs)(fileName t \<mapsto> img)\<rparr>))
   \<and> snd (snd (exec lib query2 t2 fs2)) = fs2"
proof -
  have r: "run lib query t fs =
          (Inr (), t\<lparr>verbose_log := verbose_log t @ [query], db := Some d'\<rparr>,
           fs\<lparr>files := (files fs)(fileName t \<mapsto> img)\<rparr>)"
    if "db t = Some d" "db_run lib query d = (Inr (), d')" "db_export lib d' = Inr img"
       "write_failure fs (fileName t) = None"
  proof -
    have w: "write_image lib (t\<lparr>verbose_log := verbose_log t @ [query], db := Some d'\<rparr>) fs
               = (t\<lparr>verbose_log := verbose_log t @ [query], db := Some d'\<rparr>,
                  fs\<lparr>files := (files fs)(fileName t \<mapsto> img)\<rparr>)"
      using write_image_ok [of "t\<lparr>verbose_log := verbose_log t @ [query], db := Some d'\<rparr>" d' lib img fs] that
      by simp
    show ?thesis using that w by (simp add: run_def Let_def)
  qed
  have e: "snd (snd (exec lib query2 t2 fs2)) = fs2"
    by (simp add: exec_def Let_def split: option.splits prod.splits sum.splits)
  show ?thesis using r e by blast
qed

theorem run_exports_exec_does_not_witness:
  "db demo_instance = Some []
   \<and> db_run demo_lib ''create table people'' [] = (Inr (), [0])
   \<and> db_export demo_lib [0] = Inr [0]
   \<and> write_failure demo_fs (fileName demo_instance) = None
   \<and> files (snd (snd (run demo_lib ''create table people'' demo_instance demo_fs))) ''storage.db''
       = Some [0]
   \<and> files (snd (snd (exec demo_lib ''create table people'' demo_instance demo_fs))) ''storage.db''
       = None"
  using run_exports_exec_does_not
          [of demo_instance "[]" demo_lib "''create table people''" "[0]" "[0]" demo_fs
              "''create table people''" demo_instance demo_fs]
  by (simp add: demo_instance_def demo_lib_def demo_fs_def)

text \<open>
  C3 (as amended). When the engine rejects a statement given to \<open>run\<close>, nothing is
  exported: the file system is as before, and \<open>run\<close> rejects with the very error the
  engine threw. An operation built on \<open>run\<close> (here \<open>decrement\<close>) passes that error through
  \<open>_errorHandler\<close>: it rejects with the same error renamed \<open>TrilogyError\<close>, its message
  untouched, and the file system is as before. Nothing in the rejection refers to the
  statement.
\<close>

theorem failed_statement_keeps_file:
  assumes "db t = Some d" and "db_run lib query d = (Inl e, d')"
  shows "run lib query t fs =
           (Inl e, t\<lparr>verbose_log := verbose_log t @ [query], db := Some d'\<rparr>, fs)
         \<and> (arify_where whr = Inr w \<and> parseTablePath table column None = (tbl, Some col, row)
              \<and> col \<noteq> [] \<and> query = decrement_statement lib tbl col amount w allowNegative
            \<longrightarrow> fst (decrement lib table column amount whr allowNegative t fs)
                  = Inl (e\<lparr>name := ''TrilogyError''\<rparr>)
                \<and> snd (snd (decrement lib table column amount whr allowNegative t fs)) = fs)"
proof -
  have r: "run lib query t fs =
           (Inl e, t\<lparr>verbose_log := verbose_log t @ [query], db := Some d'\<rparr>, fs)"
    using assms by (rule run_fails)
  have "fst (decrement lib table column amount whr allowNegative t fs)
                  = Inl (e\<lparr>name := ''TrilogyError''\<rparr>)
        \<and> snd (snd (decrement lib table column amount whr allowNegative t fs)) = fs"
    if "arify_where whr = Inr w" "parseTablePath table column None = (tbl, Some col, row)"
       "col \<noteq> []" "query = decrement_statement lib tbl col amount w allowNegative"
    using decrement_runs [OF that(1,2,3), of lib amount allowNegative t fs] r that(4)
    by (simp add: errorHandler_def Let_def)
  then show ?thesis using r by blast
qed

theorem failed_statement_keeps_file_witness:
  "db demo_instance = Some []
   \<and> db_run demo_lib ''update ! set age = MAX(0, age - 1) where ?'' []
       = (Inl (Error ''syntax error''), [])
   \<and> run demo_lib ''update ! set age = MAX(0, age - 1) where ?'' demo_instance demo_fs =
       (Inl \<lparr>name = ''Error'', message = ''syntax error''\<rparr>,
        demo_instance\<lparr>verbose_log := [''update ! set age = MAX(0, age - 1) where ?'']\<rparr>,
        demo_fs)
   \<and> decrement demo_lib ''!.age'' None None None None demo_instance demo_fs =
       (Inl \<lparr>name = ''TrilogyError'', message = ''syntax error''\<rparr>,
        demo_instance\<lparr>verbose_log := [''update ! set age = MAX(0, age - 1) where ?''],
                       listened := [\<lparr>name = ''TrilogyError'', message = ''syntax error''\<rparr>]\<rparr>,
        demo_fs)"
proof -
  have a: "db demo_instance = Some []" by (simp add: demo_instance_def)
  have b: "db_run demo_lib ''update ! set age = MAX(0, age - 1) where ?'' []
             = (Inl (Error ''syntax error''), [])"
    by (simp add: demo_lib_def)
  have p: "parseTablePath ''!.age'' None None = (''!'', Some ''age'', None)"
    by code_simp
  have w: "arify_where None = Inr (Array [Str ''1'', Str ''='', Str ''1''])"
    by (simp add: arify_where_def)
  have q: "''update ! set age = MAX(0, age - 1) where ?''
             = decrement_statement demo_lib ''!'' ''age'' None
                 (Array [Str ''1'', Str ''='', Str ''1'']) None"
    by (simp add: decrement_statement_def decrement_expr_def sanitizeWhere_def demo_lib_def
          number_text_0 number_text_1)
  have whole: "decrement demo_lib ''!.age'' None None None None demo_instance demo_fs =
       (Inl \<lparr>name = ''TrilogyError'', message = ''syntax error''\<rparr>,
        demo_instance\<lparr>verbose_log := [''update ! set age = MAX(0, age - 1) where ?''],
                       listened := [\<lparr>name = ''TrilogyError'', message = ''syntax error''\<rparr>]\<rparr>,
        demo_fs)"
    by (simp add: p run_def decrement_def arify_where_def sanitizeWhere_def rawStr_def
          errorHandler_def demo_lib_def demo_instance_def Error_def Let_def number_text_1)
  show ?thesis
    using failed_statement_keeps_file
            [OF a b, where fs = demo_fs and whr = None and table = "''!.age''"
               and column = None and amount = None and allowNegative = None]
          a b whole
    by (simp add: demo_instance_def Error_def)
qed

text \<open>
  C3 as stated fails in its last part: the rejection is not tagged with the statement
  text. Two different statements the engine rejects with the same error yield the same
  rejection, whose name and message are the engine's; through \<open>decrement\<close> only the name
  changes.
\<close>

theorem rejection_carries_no_statement_text:
  "fst (run demo_lib ''drop table !'' demo_instance demo_fs)
     = Inl \<lparr>name = ''Error'', message = ''syntax error''\<rparr>
   \<and> fst (run demo_lib ''delete from !'' demo_instance demo_fs)
     = Inl \<lparr>name = ''Error'', message = ''syntax error''\<rparr>
   \<and> fst (decrement demo_lib ''!.age'' None None None None demo_instance demo_fs)
     = Inl \<lparr>name = ''TrilogyError'', message = ''syntax error''\<rparr>"
proof -
  have p: "parseTablePath ''!.age'' None None = (''!'', Some ''age'', None)"
    by code_simp
  show ?thesis
    by (simp add: p run_def decrement_def arify_where_def sanitizeWhere_def rawStr_def
          errorHandler_def demo_lib_def demo_instance_def Error_def Let_def)
qed

text \<open>
  C8. Opening: when the backing file exists, the engine is created from its bytes and
  the file system is not touched; when it does not, an empty engine is created and
  exported once, so that (the export and the write going through) the backing file
  exists afterwards and holds the image of the empty engine.
\<close>

theorem init_loads_or_creates:
  "(files fs (fileName t) = Some content \<longrightarrow>
      init lib t fs = (t\<lparr>db := Some (Database lib (Some content))\<rparr>, fs))
   \<and> (files fs (fileName t) = None \<and> db_export lib (Database lib None) = Inr img
        \<and> write_failure fs (fileName t) = None \<longrightarrow>
      init lib t fs = (t\<lparr>db := Some (Database lib None)\<rparr>,
                       fs\<lparr>files := (files fs)(fileName t \<mapsto> img)\<rparr>)
      \<and> jetpack_exists (fileName t) (snd (init lib t fs)))"
  by (simp add: init_def jetpack_exists_def jetpack_read_def write_image_def jetpack_file_def
        Let_def)

theorem init_loads_or_creates_witness:
  "files demo_fs (fileName fresh_instance) = None
   \<and> db_export demo_lib (Database demo_lib None) = Inr []
   \<and> write_failure demo_fs (fileName fresh_instance) = None
   \<and> init demo_lib fresh_instance demo_fs
       = (demo_instance, demo_fs\<lparr>files := (files demo_fs)(''storage.db'' \<mapsto> [])\<rparr>)
   \<and> files (demo_fs\<lparr>files := (files demo_fs)(''storage.db'' \<mapsto> [5, 6])\<rparr>)
        (fileName fresh_instance) = Some [5, 6]
   \<and> init demo_lib fresh_instance (demo_fs\<lparr>files := (files demo_fs)(''storage.db'' \<mapsto> [5, 6])\<rparr>)
       = (demo_instance\<lparr>db := Some [5, 6]\<rparr>,
          demo_fs\<lparr>files := (files demo_fs)(''storage.db'' \<mapsto> [5, 6])\<rparr>)"
  using init_loads_or_creates [of demo_fs fresh_instance "[]" demo_lib "[]"]
        init_loads_or_creates
          [of "demo_fs\<lparr>files := (files demo_fs)(''storage.db'' \<mapsto> [5, 6])\<rparr>"
              fresh_instance "[5, 6]" demo_lib "[]"]
  by (simp add: demo_fs_def fresh_instance_def demo_instance_def demo_lib_def)

subsection \<open>Operations\<close>

text \<open>
  C4. A decrement (valid criteria, column present) runs the update that assigns to the
  column the expression \<open>rawStr\<close>: with \<open>allowNegative\<close> unset or false its text is
  \<open>MAX(0, column - amount)\<close> and its value the larger of 0 and the difference, never
  below 0; with \<open>allowNegative\<close> true its text is \<open>column - amount\<close> and its value the
  difference itself, whatever its sign.
\<close>

theorem decrement_clamps_at_zero:
  assumes "arify_where whr = Inr w"
    and "parseTablePath table column None = (tbl, Some col, row)"
    and "col \<noteq> []"
  shows "decrement lib table column amount whr allowNegative t fs =
           (case run lib (decrement_statement lib tbl col amount w allowNegative) t fs of
              (Inl e, t', fs') \<Rightarrow>
                (case errorHandler (AnError e) None t' of (e', t'') \<Rightarrow> (Inl e', t'', fs'))
            | (Inr u, t', fs') \<Rightarrow> (Inr (), t', fs'))
         \<and> sql_text (decrement_expr col a False) = ''MAX(0, '' @ col @ '' - '' @ number_text a @ '')''
         \<and> sql_value r (decrement_expr col a False) = max 0 (r col - a)
         \<and> 0 \<le> sql_value r (decrement_expr col a False)
         \<and> sql_text (decrement_expr col a True) = col @ '' - '' @ number_text a
         \<and> sql_value r (decrement_expr col a True) = r col - a"
  using decrement_runs [OF assms]
  by (simp add: decrement_expr_def number_text_0)

theorem decrement_clamps_at_zero_witness:
  "decrement_statement demo_lib ''people'' ''age'' (Some 100)
       (PlainObject [(''name'', Str ''Bob'')]) None
     = ''update people set age = MAX(0, age - 100) where ?''
   \<and> decrement demo_lib ''people.age'' None (Some 100)
        (Some (PlainObject [(''name'', Str ''Bob'')])) None demo_instance demo_fs
     = (Inr (),
        demo_instance\<lparr>verbose_log := [''update people set age = MAX(0, age - 100) where ?''],
                       db := Some [0]\<rparr>,
        demo_fs\<lparr>files := (files demo_fs)(''storage.db'' \<mapsto> [0])\<rparr>)
   \<and> sql_value demo_row (decrement_expr ''age'' 100 False) = 0
   \<and> sql_value demo_row (decrement_expr ''age'' 100 True) = - 82"
proof -
  have w: "arify_where (Some (PlainObject [(''name'', Str ''Bob'')]))
             = Inr (PlainObject [(''name'', Str ''Bob'')])"
    by (simp add: arify_where_def isValidWhere_def)
  have p: "parseTablePath ''people.age'' None None = (''people'', Some ''age'', None)"
    by code_simp
  have n: "number_text 100 = ''100''"
    by code_simp
  have c: "''age'' \<noteq> []" by simp
  have s: "decrement_statement demo_lib ''people'' ''age'' (Some 100)
       (PlainObject [(''name'', Str ''Bob'')]) None
     = ''update people set age = MAX(0, age - 100) where ?''"
    by (simp add: decrement_statement_def decrement_expr_def sanitizeWhere_def demo_lib_def n
          number_text_0)
  have r: "run demo_lib ''update people set age = MAX(0, age - 100) where ?'' demo_instance demo_fs
     = (Inr (),
        demo_instance\<lparr>verbose_log := [''update people set age = MAX(0, age - 100) where ?''],
                       db := Some [0]\<rparr>,
        demo_fs\<lparr>files := (files demo_fs)(''storage.db'' \<mapsto> [0])\<rparr>)"
    by (simp add: run_def write_image_def jetpack_file_def demo_lib_def demo_instance_def
          demo_fs_def Let_def)
  show ?thesis
    using decrement_clamps_at_zero
            [OF w p c, where lib = demo_lib and amount = "Some 100" and allowNegative = None
               and t = demo_instance and fs = demo_fs and a = 100 and r = demo_row]
    by (simp add: s r demo_row_def)
qed

text \<open>
  C5. The criteria test accepts exactly a plain object, an array of length 2, an array
  of length 3, and a function. Any other criteria makes the operation fail with the
  validation failure before the engine or the file is touched: the instance and the
  file system come back unchanged.
\<close>

theorem isValidWhere_shapes:
  "(isValidWhere v \<longleftrightarrow>
      (\<exists>kvs. v = PlainObject kvs)
      \<or> (\<exists>xs. v = Array xs \<and> (length xs = 2 \<or> length xs = 3))
      \<or> (\<exists>f. v = Function f))
   \<and> (\<not> isValidWhere v \<longrightarrow>
        arify_where (Some v) = Inl InvalidCriteriaKind
        \<and> decrement lib table column amount (Some v) allowNegative t fs
            = (Inl InvalidCriteriaKind, t, fs)
        \<and> count lib table2 column2 (Some v) distinct_option t
            = (Inl InvalidCriteriaKind, t))"
proof -
  have shapes: "isValidWhere v \<longleftrightarrow>
      (\<exists>kvs. v = PlainObject kvs)
      \<or> (\<exists>xs. v = Array xs \<and> (length xs = 2 \<or> length xs = 3))
      \<or> (\<exists>f. v = Function f)"
    by (cases v) (simp_all add: isValidWhere_def Let_def)
  have rejects: "arify_where (Some v) = Inl InvalidCriteriaKind" if "\<not> isValidWhere v"
    using that by (simp add: arify_where_def)
  show ?thesis
    using shapes rejects by (simp add: decrement_def count_def)
qed

theorem isValidWhere_shapes_witness:
  "\<not> isValidWhere (Array [Str ''age'', Str ''>'', Num 18, Num 21])
   \<and> \<not> isValidWhere (Str ''age > 18'')
   \<and> isValidWhere (Array [Str ''age'', Num 18])
   \<and> decrement demo_lib ''people.age'' None None (Some (Str ''age > 18'')) None
        demo_instance demo_fs
       = (Inl InvalidCriteriaKind, demo_instance, demo_fs)
   \<and> count demo_lib (Some ''people'') None
        (Some (Array [Str ''age'', Str ''>'', Num 18, Num 21])) None demo_instance
       = (Inl InvalidCriteriaKind, demo_instance)"
  using isValidWhere_shapes [of "Str ''age > 18''" demo_lib "''people.age''" None None None
                               demo_instance demo_fs "Some ''people''" None None]
        isValidWhere_shapes [of "Array [Str ''age'', Str ''>'', Num 18, Num 21]" demo_lib
                               "''people.age''" None None None
                               demo_instance demo_fs "Some ''people''" None None]
        isValidWhere_shapes [of "Array [Str ''age'', Num 18]" demo_lib
                               "''people.age''" None None None
                               demo_instance demo_fs "Some ''people''" None None]
  by simp

text \<open>
  C7. A count whose statement the engine answers: when the answer is a plain object
  with a \<open>count\<close> field, the operation resolves to that field; when it has no such
  field it resolves to 0, not to \<open>null\<close> or \<open>undefined\<close>; so whenever the engine's count
  is an integer, the result is an integer.
\<close>

theorem count_yields_integer:
  assumes "arify_where whr = Inr w"
    and "db t = Some d"
    and "db_getAsObject lib (count_statement lib table column w distinct_option) d = Inr res"
  shows "(\<forall>kvs v. res = PlainObject kvs \<and> map_of kvs ''count'' = Some v \<longrightarrow>
            count lib table column whr distinct_option t = (Inr v, t))
         \<and> ((\<forall>kvs. res = PlainObject kvs \<longrightarrow> map_of kvs ''count'' = None) \<longrightarrow>
            count lib table column whr distinct_option t = (Inr (Num 0), t))
         \<and> ((\<forall>kvs v. res = PlainObject kvs \<and> map_of kvs ''count'' = Some v \<longrightarrow> (\<exists>n. v = Num n)) \<longrightarrow>
            (\<exists>n. count lib table column whr distinct_option t = (Inr (Num n), t)))"
proof -
  have q: "toString lib (sanitizeWhere w
             (if distinct_option = Some True
              then CountDistinct (Table (case table of None \<Rightarrow> ''sqlite_master'' | Some s \<Rightarrow> s))
                     ((case column of None \<Rightarrow> ''*'' | Some s \<Rightarrow> s) @ '' as count'')
              else Count (Table (case table of None \<Rightarrow> ''sqlite_master'' | Some s \<Rightarrow> s))
                     ((case column of None \<Rightarrow> ''*'' | Some s \<Rightarrow> s) @ '' as count'')))
           = count_statement lib table column w distinct_option"
    by (simp add: count_statement_def)
  have c: "count lib table column whr distinct_option t =
             (if isPlainObject res \<and> has_property ''count'' res
              then (Inr (get_property res ''count''), t) else (Inr (Num 0), t))"
    using assms by (simp add: count_def Let_def q)
  show ?thesis
    unfolding c by (cases res) auto
qed

theorem count_yields_integer_witness:
  "arify_where None = Inr (Array [Str ''1'', Str ''='', Str ''1''])
   \<and> db (demo_instance\<lparr>db := Some [0, 1]\<rparr>) = Some [0, 1]
   \<and> count demo_lib (Some ''people'') None None None (demo_instance\<lparr>db := Some [0, 1]\<rparr>)
       = (Inr (Num 2), demo_instance\<lparr>db := Some [0, 1]\<rparr>)"
proof -
  have a: "arify_where None = Inr (Array [Str ''1'', Str ''='', Str ''1''])"
    by (simp add: arify_where_def)
  have b: "db (demo_instance\<lparr>db := Some [0, 1]\<rparr>) = Some [0, 1]" by simp
  have c: "db_getAsObject demo_lib
             (count_statement demo_lib (Some ''people'') None
                (Array [Str ''1'', Str ''='', Str ''1'']) None) [0, 1]
           = Inr (PlainObject [(''count'', Num 2)])"
    by (simp add: demo_lib_def)
  show ?thesis
    using count_yields_integer [OF a b c] a b by simp
qed

end
